theory Spec2Isabelle
  imports Main "HOL-Library.Word"
begin

section \<open>Manual compaction HTTP action (be/src/http/action/compaction_action.cpp)\<close>

text \<open>
  A shallow embedding of \<^verbatim>\<open>CompactionAction\<close>: the two \<^verbatim>\<open>_check_param\<close> overloads, the
  three request handlers, the compaction callback run by the detached thread, and
  \<^verbatim>\<open>handle\<close>. A leading underscore is not an Isabelle identifier, so
  \<^verbatim>\<open>_check_param\<close> is \<open>check_param\<close>, and so on. Unsigned 64-bit ids are \<open>64 word\<close>.
  What a handler does to its collaborators (tablet manager, storage engine, locks,
  threads) is recorded as a list of events, in program order.
\<close>

subsection \<open>Status\<close>

text \<open>
  \<^verbatim>\<open>doris::Status\<close> (common/status.h) is a code with a message. Only the codes this file
  names are constructors of their own; \<open>OTHER_ERROR n\<close> stands for every other code.
  \<^verbatim>\<open>Status::InternalError\<close>, \<^verbatim>\<open>Status::NotSupported\<close> and \<^verbatim>\<open>Status::NotFound\<close> build the
  codes of the same name.
\<close>

datatype error_code =
    OK
  | INTERNAL_ERROR
  | NOT_SUPPORTED
  | NOT_FOUND
  | BE_NO_SUITABLE_VERSION
  | CUMULATIVE_NO_SUITABLE_VERSION
  | FULL_NO_SUITABLE_VERSION
  | OTHER_ERROR nat

datatype status = Status (code: error_code) (msg: string)

definition Status_OK :: status where
  "Status_OK = Status OK []"

definition InternalError :: "string \<Rightarrow> status" where
  "InternalError m = Status INTERNAL_ERROR m"

definition NotSupported :: "string \<Rightarrow> status" where
  "NotSupported m = Status NOT_SUPPORTED m"

definition NotFound :: "string \<Rightarrow> status" where
  "NotFound m = Status NOT_FOUND m"

text \<open>\<^verbatim>\<open>Status::ok()\<close>, also \<^verbatim>\<open>operator bool\<close>; and \<^verbatim>\<open>Status::is<code>()\<close>.\<close>

definition ok :: "status \<Rightarrow> bool" where
  "ok st = (code st = OK)"

definition is_code :: "error_code \<Rightarrow> status \<Rightarrow> bool" where
  "is_code c st = (code st = c)"

subsection \<open>Strings and numbers of the C++ standard library\<close>

text \<open>\<^verbatim>\<open>std::to_string\<close> of an unsigned integer, and fmt's \<^verbatim>\<open>{}\<close> of one: decimal digits.\<close>

definition digit_char :: "nat \<Rightarrow> char" where
  "digit_char d = char_of (48 + d)"

fun string_of_nat :: "nat \<Rightarrow> string" where
  "string_of_nat n =
     (if n < 10 then [digit_char n]
      else string_of_nat (n div 10) @ [digit_char (n mod 10)])"

declare string_of_nat.simps [simp del]

definition to_string :: "64 word \<Rightarrow> string" where
  "to_string w = string_of_nat (unat w)"

text \<open>
  \<^verbatim>\<open>std::stoull(str)\<close> with base 10 (the C++ standard, through \<^verbatim>\<open>strtoull\<close>): leading white
  space is skipped, one sign is accepted, the longest run of decimal digits is read and
  whatever follows is ignored. No digit: \<^verbatim>\<open>std::invalid_argument\<close>. A magnitude that
  does not fit 64 bits: \<^verbatim>\<open>std::out_of_range\<close>. A minus sign negates in the unsigned type.
\<close>

datatype stoull_exception = invalid_argument | out_of_range

text \<open>\<^verbatim>\<open>e.what()\<close>: libstdc++ passes the name of the conversion function.\<close>

definition what :: "stoull_exception \<Rightarrow> string" where
  "what e = ''stoull''"

definition isspace :: "char \<Rightarrow> bool" where
  "isspace c = (c \<in> set [CHR '' '', CHR 0x09, CHR 0x0A, CHR 0x0B, CHR 0x0C, CHR 0x0D])"

definition isdigit :: "char \<Rightarrow> bool" where
  "isdigit c = ((48::nat) \<le> of_char c \<and> of_char c \<le> (57::nat))"

definition digits_value :: "string \<Rightarrow> nat" where
  "digits_value ds = foldl (\<lambda>acc c. acc * 10 + (of_char c - (48::nat))) (0::nat) ds"

definition strip_sign :: "string \<Rightarrow> bool \<times> string" where
  "strip_sign s =
     (case s of
        [] \<Rightarrow> (False, [])
      | c # r \<Rightarrow>
          if c = CHR ''-'' then (True, r)
          else if c = CHR ''+'' then (False, r)
          else (False, s))"

definition stoull :: "string \<Rightarrow> stoull_exception + 64 word" where
  "stoull str =
     (case strip_sign (dropWhile isspace str) of
        (neg, s) \<Rightarrow>
          (let ds = takeWhile isdigit s in
           if ds = [] then Inl invalid_argument
           else if 2 ^ 64 \<le> digits_value ds then Inl out_of_range
           else if neg then Inr (- word_of_nat (digits_value ds))
           else Inr (word_of_nat (digits_value ds))))"

subsection \<open>Requests\<close>

text \<open>
  \<^verbatim>\<open>HttpRequest::param(key)\<close> gives the value of a query parameter, and the empty string
  when the request has none of that name.
\<close>

record http_request =
  params :: "(string \<times> string) list"

definition param :: "http_request \<Rightarrow> string \<Rightarrow> string" where
  "param req key = (case map_of (params req) key of None \<Rightarrow> [] | Some v \<Rightarrow> v)"

text \<open>
  Modelled from the spec: the parameter names and values of compaction_action.h and
  http_common.h, which are not among the sources. The spec names the request fields
  \<^verbatim>\<open>tablet_id\<close>, \<^verbatim>\<open>table_id\<close>, \<^verbatim>\<open>remote\<close> and the kinds \<^verbatim>\<open>base\<close>, \<^verbatim>\<open>cumulative\<close>, \<^verbatim>\<open>full\<close>; the
  name of the kind parameter is the one the status reply uses.
\<close>

definition TABLET_ID_KEY :: string where "TABLET_ID_KEY = ''tablet_id''"
definition TABLE_ID_KEY :: string where "TABLE_ID_KEY = ''table_id''"
definition PARAM_COMPACTION_TYPE :: string where "PARAM_COMPACTION_TYPE = ''compact_type''"
definition PARAM_COMPACTION_BASE :: string where "PARAM_COMPACTION_BASE = ''base''"
definition PARAM_COMPACTION_CUMULATIVE :: string where "PARAM_COMPACTION_CUMULATIVE = ''cumulative''"
definition PARAM_COMPACTION_FULL :: string where "PARAM_COMPACTION_FULL = ''full''"
definition PARAM_COMPACTION_REMOTE :: string where "PARAM_COMPACTION_REMOTE = ''remote''"

subsection \<open>Parameter checking\<close>

text \<open>
  \<^verbatim>\<open>_check_param(req, &tablet_id, &table_id)\<close>: the out-parameters are passed in and handed
  back, written only where the source writes them.
\<close>

definition check_param :: "http_request \<Rightarrow> 64 word \<Rightarrow> 64 word \<Rightarrow> status \<times> 64 word \<times> 64 word" where
  "check_param req tablet_id table_id =
     (let req_tablet_id = param req TABLET_ID_KEY;
          req_table_id = param req TABLE_ID_KEY
      in if req_tablet_id = [] then
           (if req_table_id = [] then
              (InternalError ''tablet id and table id can not be empty at the same time!'',
               tablet_id, table_id)
            else
              (case stoull req_table_id of
                 Inl e \<Rightarrow> (InternalError (''convert table_id failed, '' @ what e), tablet_id, table_id)
               | Inr v \<Rightarrow> (Status_OK, tablet_id, v)))
         else if req_table_id = [] then
           (case stoull req_tablet_id of
              Inl e \<Rightarrow> (InternalError (''convert tablet_id failed, '' @ what e), tablet_id, table_id)
            | Inr v \<Rightarrow> (Status_OK, v, table_id))
         else
           (InternalError ''tablet id and table id can not be set at the same time!'',
            tablet_id, table_id))"

text \<open>\<^verbatim>\<open>_check_param(req, &id_param, param_name)\<close>: an absent parameter leaves the id as it is.\<close>

definition check_param_id :: "http_request \<Rightarrow> 64 word \<Rightarrow> string \<Rightarrow> status \<times> 64 word" where
  "check_param_id req id_param param_name =
     (let req_id_param = param req param_name
      in if req_id_param \<noteq> [] then
           (case stoull req_id_param of
              Inl e \<Rightarrow> (InternalError (''convert '' @ param_name @ '' failed, '' @ what e), id_param)
            | Inr v \<Rightarrow> (Status_OK, v))
         else (Status_OK, id_param))"

subsection \<open>Tablets and the storage engine\<close>

text \<open>
  \<^verbatim>\<open>std::mutex\<close> as this file uses it: \<^verbatim>\<open>std::unique_lock(m, std::try_to_lock)\<close> owns the
  lock exactly when no other thread holds it; the probe releases it at the end of its
  block, so a probe leaves the mutex as it found it.
\<close>

datatype mutex = Free | Held

definition owns_lock :: "mutex \<Rightarrow> bool" where
  "owns_lock m = (m = Free)"

text \<open>
  A cumulative compaction policy object. \<open>instance_id\<close> tells two objects apart, as the
  address behind a \<^verbatim>\<open>std::shared_ptr\<close> does; \<open>policy_name\<close> is the persisted name it was
  made from.
\<close>

record policy =
  instance_id :: nat
  policy_name :: string

text \<open>
  What this file reads of a \<^verbatim>\<open>Tablet\<close>, one field for each accessor it calls
  (\<open>get_tablet_id\<close> is \<^verbatim>\<open>tablet_id()\<close>, \<open>compaction_policy\<close> is
  \<^verbatim>\<open>tablet_meta()->compaction_policy()\<close>). A null policy pointer is \<open>None\<close>.
\<close>

record tablet =
  get_tablet_id :: "64 word"
  get_table_id :: "64 word"
  should_fetch_from_peer :: bool
  is_full_compaction_running :: bool
  get_cumulative_compaction_lock :: mutex
  get_base_compaction_lock :: mutex
  compaction_policy :: string
  get_cumulative_compaction_policy :: "policy option"
  get_compaction_status :: string

definition set_cumulative_compaction_policy :: "policy \<Rightarrow> tablet \<Rightarrow> tablet" where
  "set_cumulative_compaction_policy p t = t\<lparr>get_cumulative_compaction_policy := Some p\<rparr>"

datatype CompactionType = BASE_COMPACTION | CUMULATIVE_COMPACTION | FULL_COMPACTION

text \<open>
  The storage engine as the handlers see it. \<open>submit_compaction_task\<close> is the result of
  \<^verbatim>\<open>StorageEngine::submit_compaction_task\<close>, whose code is not among the sources: it is a
  parameter, so every theorem holds for every way submissions succeed or fail.
\<close>

record storage_engine =
  tablets :: "tablet list"
  get_compaction_status_json :: string
  submit_compaction_task :: "tablet \<Rightarrow> CompactionType \<Rightarrow> bool \<Rightarrow> status"

text \<open>
  Modelled from the spec: the tablet registry (\<^verbatim>\<open>TabletManager\<close>, not among the sources),
  \<^verbatim>\<open>get_tablet(id) -> Tablet|NotFound\<close> and \<^verbatim>\<open>get_all_tablets(predicate) -> sequence of
  Tablet\<close>.
\<close>

definition get_tablet :: "storage_engine \<Rightarrow> 64 word \<Rightarrow> tablet option" where
  "get_tablet engine tablet_id = find (\<lambda>t. get_tablet_id t = tablet_id) (tablets engine)"

definition get_all_tablet :: "storage_engine \<Rightarrow> (tablet \<Rightarrow> bool) \<Rightarrow> tablet list" where
  "get_all_tablet engine pred = filter pred (tablets engine)"

text \<open>What a handler does to its collaborators, in program order.\<close>

datatype compaction_lock = cumulative_compaction_lock | base_compaction_lock

datatype event =
    GetTablet "64 word"
  | GetAllTablet "64 word"
  | SubmitCompactionTask "64 word" CompactionType bool
  | ThreadDetach "64 word" string bool
  | FutureWaitFor nat
  | TryLock compaction_lock "64 word"

subsection \<open>Show and run-status handlers\<close>

definition handle_show_compaction ::
  "storage_engine \<Rightarrow> http_request \<Rightarrow> status \<times> string \<times> event list" where
  "handle_show_compaction engine req =
     (case check_param_id req 0 TABLET_ID_KEY of
        (st, tablet_id) \<Rightarrow>
          if \<not> ok st then (st, [], [])
          else if tablet_id = 0 then
            (InternalError ''check param failed: missing tablet_id'', [], [])
          else
            (case get_tablet engine tablet_id of
               None \<Rightarrow>
                 (NotFound (''Tablet not found. tablet_id='' @ to_string tablet_id), [],
                  [GetTablet tablet_id])
             | Some tablet \<Rightarrow>
                 (Status_OK, get_compaction_status tablet, [GetTablet tablet_id])))"

text \<open>
  \<^verbatim>\<open>absl::Substitute(json_template, run_status, msg, tablet_id, compaction_type)\<close>: the
  template with \<^verbatim>\<open>$0\<close> to \<^verbatim>\<open>$3\<close> replaced; a bool is written \<^verbatim>\<open>true\<close> or \<^verbatim>\<open>false\<close>.
\<close>

definition bool_string :: "bool \<Rightarrow> string" where
  "bool_string b = (if b then ''true'' else ''false'')"

definition json_indent :: string where
  "json_indent = [CHR 0x0A] @ replicate 12 (CHR '' '')"

definition json_template :: "bool \<Rightarrow> string \<Rightarrow> 64 word \<Rightarrow> string \<Rightarrow> string" where
  "json_template run_status message tablet_id compaction_type =
     ''{'' @ json_indent @ ''\"status\" : \"Success\",''
     @ json_indent @ ''\"run_status\" : '' @ bool_string run_status @ '',''
     @ json_indent @ ''\"msg\" : \"'' @ message @ ''\",''
     @ json_indent @ ''\"tablet_id\" : '' @ to_string tablet_id @ '',''
     @ json_indent @ ''\"compact_type\" : \"'' @ compaction_type @ ''\"''
     @ [CHR 0x0A] @ replicate 8 (CHR '' '') @ ''}''"

definition handle_run_status_compaction ::
  "storage_engine \<Rightarrow> http_request \<Rightarrow> status \<times> string \<times> event list" where
  "handle_run_status_compaction engine req =
     (case check_param_id req 0 TABLET_ID_KEY of
        (st, tablet_id) \<Rightarrow>
          if \<not> ok st then (st, [], [])
          else if tablet_id = 0 then (Status_OK, get_compaction_status_json engine, [])
          else
            (case get_tablet engine tablet_id of
               None \<Rightarrow>
                 (InternalError (''fail to get '' @ to_string tablet_id), [], [GetTablet tablet_id])
             | Some tablet \<Rightarrow>
                 if is_full_compaction_running tablet then
                   (Status_OK,
                    json_template True ''compaction task for this tablet is running'' tablet_id ''full'',
                    [GetTablet tablet_id])
                 else if \<not> owns_lock (get_cumulative_compaction_lock tablet) then
                   (Status_OK,
                    json_template True ''compaction task for this tablet is running'' tablet_id
                      ''cumulative'',
                    [GetTablet tablet_id, TryLock cumulative_compaction_lock tablet_id])
                 else if \<not> owns_lock (get_base_compaction_lock tablet) then
                   (Status_OK,
                    json_template True ''compaction task for this tablet is running'' tablet_id ''base'',
                    [GetTablet tablet_id, TryLock cumulative_compaction_lock tablet_id,
                     TryLock base_compaction_lock tablet_id])
                 else
                   (Status_OK,
                    json_template False ''compaction task for this tablet is not running'' tablet_id [],
                    [GetTablet tablet_id, TryLock cumulative_compaction_lock tablet_id,
                     TryLock base_compaction_lock tablet_id])))"

subsection \<open>The compaction callback\<close>

text \<open>
  The four compaction classes the callback builds. Their \<^verbatim>\<open>prepare_compact\<close> and
  \<^verbatim>\<open>execute_compact\<close> are not among the sources: their results are parameters, and each
  call is recorded.
\<close>

datatype compaction =
    BaseCompaction
  | SingleReplicaCompaction
  | CumulativeCompaction
  | FullCompaction

record compaction_ops =
  prepare_compact :: "compaction \<Rightarrow> tablet \<Rightarrow> status"
  execute_compact :: "compaction \<Rightarrow> tablet \<Rightarrow> status"

datatype compaction_call = PrepareCompact compaction | ExecuteCompact compaction

text \<open>
  The \<^verbatim>\<open>do_compact\<close> lambda. \<^verbatim>\<open>RETURN_IF_ERROR\<close> returns the status of its statement when
  that status is not ok.
\<close>

definition do_compact :: "compaction_ops \<Rightarrow> compaction \<Rightarrow> tablet \<Rightarrow> status \<times> compaction_call list" where
  "do_compact ops c t =
     (let st = prepare_compact ops c t
      in if \<not> ok st then (st, [PrepareCompact c])
         else (execute_compact ops c t, [PrepareCompact c, ExecuteCompact c]))"

text \<open>The two counters of \<^verbatim>\<open>DorisMetrics\<close> this file increments.\<close>

record doris_metrics =
  base_compaction_request_failed :: nat
  cumulative_compaction_request_failed :: nat

text \<open>
  What the callback reads and writes: the tablet behind its shared pointer, the metrics,
  the number of policy objects made so far, and the calls made on compaction objects.
\<close>

record callback_state =
  cb_tablet :: tablet
  metrics :: doris_metrics
  policies_created :: nat
  calls :: "compaction_call list"

text \<open>
  Modelled from the spec: \<^verbatim>\<open>CumulativeCompactionPolicyFactory\<close> is not among the sources;
  a policy is "derived from persisted tablet configuration". Each call makes a new object.
\<close>

definition create_cumulative_compaction_policy :: "nat \<Rightarrow> string \<Rightarrow> policy" where
  "create_cumulative_compaction_policy n name = \<lparr>instance_id = n, policy_name = name\<rparr>"

definition record_calls :: "compaction_call list \<Rightarrow> callback_state \<Rightarrow> callback_state" where
  "record_calls cs s = s\<lparr>calls := calls s @ cs\<rparr>"

definition increment_base_failed :: "callback_state \<Rightarrow> callback_state" where
  "increment_base_failed s =
     s\<lparr>metrics := (metrics s)\<lparr>base_compaction_request_failed :=
          base_compaction_request_failed (metrics s) + 1\<rparr>\<rparr>"

definition increment_cumulative_failed :: "callback_state \<Rightarrow> callback_state" where
  "increment_cumulative_failed s =
     s\<lparr>metrics := (metrics s)\<lparr>cumulative_compaction_request_failed :=
          cumulative_compaction_request_failed (metrics s) + 1\<rparr>\<rparr>"

text \<open>Lines 289 to 294: the policy object is made on every call, and bound only to a
  tablet that has none.\<close>

definition bind_policy :: "callback_state \<Rightarrow> callback_state" where
  "bind_policy s =
     (let tablet = cb_tablet s;
          cumulative_compaction_policy =
            create_cumulative_compaction_policy (policies_created s) (compaction_policy tablet)
      in s\<lparr>policies_created := policies_created s + 1,
            cb_tablet :=
              (if get_cumulative_compaction_policy tablet = None
               then set_cumulative_compaction_policy cumulative_compaction_policy tablet
               else tablet)\<rparr>)"

text \<open>
  \<^verbatim>\<open>_execute_compaction_callback\<close>. The stopwatch and the log lines are left out; a
  \<open>compaction_type\<close> that is none of the three runs no compaction and returns OK.
\<close>

definition execute_compaction_callback ::
  "compaction_ops \<Rightarrow> callback_state \<Rightarrow> string \<Rightarrow> bool \<Rightarrow> status \<times> callback_state" where
  "execute_compaction_callback ops s0 compaction_type fetch_from_remote =
     (let s = bind_policy s0; tablet = cb_tablet s
      in if compaction_type = PARAM_COMPACTION_BASE then
           (case do_compact ops BaseCompaction tablet of
              (res, cs) \<Rightarrow>
                if \<not> ok res \<and> \<not> is_code BE_NO_SUITABLE_VERSION res
                then (res, increment_base_failed (record_calls cs s))
                else (res, record_calls cs s))
         else if compaction_type = PARAM_COMPACTION_CUMULATIVE then
           (if fetch_from_remote then
              (case do_compact ops SingleReplicaCompaction tablet of
                 (res, cs) \<Rightarrow> (res, record_calls cs s))
            else
              (case do_compact ops CumulativeCompaction tablet of
                 (res, cs) \<Rightarrow>
                   if \<not> ok res \<and> \<not> is_code CUMULATIVE_NO_SUITABLE_VERSION res
                   then (res, increment_cumulative_failed (record_calls cs s))
                   else (res, record_calls cs s)))
         else if compaction_type = PARAM_COMPACTION_FULL then
           (case do_compact ops FullCompaction tablet of
              (res, cs) \<Rightarrow> (res, record_calls cs s))
         else (Status_OK, s))"

subsection \<open>The run handler\<close>

text \<open>\<^verbatim>\<open>std::future_status\<close>, the result of \<^verbatim>\<open>future_obj.wait_for\<close>.\<close>

datatype future_status = ready | timeout | deferred

text \<open>
  What the run handler depends on besides the request: the engine, the compaction
  classes, whether the debug point
  \<^verbatim>\<open>CompactionAction._handle_run_compaction.submit_cumu_task\<close> is active, what the wait on
  the future returns, and the metrics and policy count the detached thread starts from.
\<close>

record run_env =
  env_engine :: storage_engine
  env_ops :: compaction_ops
  debug_point_submit_cumu_task :: bool
  wait_for :: future_status
  metrics_now :: doris_metrics
  policies_now :: nat

definition triggered_json :: "string \<Rightarrow> 64 word \<Rightarrow> 64 word \<Rightarrow> string" where
  "triggered_json what_task table_id tablet_id =
     ''{\"status\": \"Success\", \"msg\": \"'' @ what_task
     @ '' task is successfully triggered. Table id: '' @ to_string table_id
     @ ''. Tablet id: '' @ to_string tablet_id @ ''\"}''"

text \<open>The loop of lines 155 to 158 over \<open>tablet_vec\<close>.\<close>

fun submit_tablet_vec :: "storage_engine \<Rightarrow> tablet list \<Rightarrow> status \<times> event list" where
  "submit_tablet_vec engine [] = (Status_OK, [])"
| "submit_tablet_vec engine (tablet # rest) =
     (let st = submit_compaction_task engine tablet FULL_COMPACTION False
      in if \<not> ok st then (st, [SubmitCompactionTask (get_tablet_id tablet) FULL_COMPACTION False])
         else (case submit_tablet_vec engine rest of
                 (st', evs) \<Rightarrow>
                   (st', SubmitCompactionTask (get_tablet_id tablet) FULL_COMPACTION False # evs)))"

text \<open>The result of the packaged task: the status the callback returns.\<close>

definition task_result :: "run_env \<Rightarrow> tablet \<Rightarrow> string \<Rightarrow> bool \<Rightarrow> status" where
  "task_result env tablet compaction_type fetch_from_remote =
     fst (execute_compaction_callback (env_ops env)
            \<lparr>cb_tablet = tablet, metrics = metrics_now env, policies_created = policies_now env,
             calls = []\<rparr>
            compaction_type fetch_from_remote)"

text \<open>Lines 152 to 203: what the run handler does once the parameters are accepted.\<close>

definition run_compaction ::
  "run_env \<Rightarrow> 64 word \<Rightarrow> 64 word \<Rightarrow> string \<Rightarrow> bool \<Rightarrow> status \<times> string \<times> event list" where
  "run_compaction env tablet_id table_id compaction_type fetch_from_remote =
     (if tablet_id = 0 \<and> table_id \<noteq> 0 then
        (case submit_tablet_vec (env_engine env)
                (get_all_tablet (env_engine env) (\<lambda>tablet. get_table_id tablet = table_id)) of
           (st, evs) \<Rightarrow>
             if \<not> ok st then (st, [], GetAllTablet table_id # evs)
             else (Status_OK, triggered_json ''compaction'' table_id tablet_id,
                   GetAllTablet table_id # evs))
      else
        (case get_tablet (env_engine env) tablet_id of
           None \<Rightarrow>
             (NotFound (''Tablet not found. tablet_id='' @ to_string tablet_id), [],
              [GetTablet tablet_id])
         | Some tablet \<Rightarrow>
             if fetch_from_remote \<and> \<not> should_fetch_from_peer tablet then
               (NotSupported ''tablet should do compaction locally'', [], [GetTablet tablet_id])
             else if debug_point_submit_cumu_task env then
               (let st = submit_compaction_task (env_engine env) tablet CUMULATIVE_COMPACTION False
                in if \<not> ok st then
                     (st, [],
                      [GetTablet tablet_id,
                       SubmitCompactionTask (get_tablet_id tablet) CUMULATIVE_COMPACTION False])
                   else
                     (Status_OK, triggered_json ''debug compaction'' table_id tablet_id,
                      [GetTablet tablet_id,
                       SubmitCompactionTask (get_tablet_id tablet) CUMULATIVE_COMPACTION False]))
             else
               (let olap_status = task_result env tablet compaction_type fetch_from_remote;
                    evs = [GetTablet tablet_id,
                           ThreadDetach (get_tablet_id tablet) compaction_type fetch_from_remote,
                           FutureWaitFor 2]
                in if wait_for env = ready \<and> \<not> ok olap_status then (olap_status, [], evs)
                   else (Status_OK, triggered_json ''compaction'' table_id tablet_id, evs))))"

text \<open>\<^verbatim>\<open>_handle_run_compaction\<close>: lines 129 to 150, then \<open>run_compaction\<close>.\<close>

definition handle_run_compaction ::
  "run_env \<Rightarrow> http_request \<Rightarrow> status \<times> string \<times> event list" where
  "handle_run_compaction env req =
     (case check_param req 0 0 of
        (st, tablet_id, table_id) \<Rightarrow>
          if \<not> ok st then (st, [], [])
          else
            (let compaction_type = param req PARAM_COMPACTION_TYPE
             in if compaction_type \<noteq> PARAM_COMPACTION_BASE
                   \<and> compaction_type \<noteq> PARAM_COMPACTION_CUMULATIVE
                   \<and> compaction_type \<noteq> PARAM_COMPACTION_FULL then
                  (NotSupported (''The compaction type '' @ [CHR 0x27] @ compaction_type
                                 @ [CHR 0x27] @ '' is not supported''), [], [])
                else
                  (let param_remote = param req PARAM_COMPACTION_REMOTE
                   in if param_remote = ''true'' then
                        run_compaction env tablet_id table_id compaction_type True
                      else if param_remote \<noteq> [] \<and> param_remote \<noteq> ''false'' then
                        (NotSupported (''The remote = '' @ [CHR 0x27] @ param_remote
                                       @ [CHR 0x27] @ '' is not supported''), [], [])
                      else run_compaction env tablet_id table_id compaction_type False)))"

subsection \<open>The entry point\<close>

datatype CompactionActionType = SHOW_INFO | RUN_COMPACTION | RUN_COMPACTION_STATUS

text \<open>\<^verbatim>\<open>HttpStatus\<close> (http/http_status.h, not among the sources): the codes a reply can carry.\<close>

datatype HttpStatus = HTTP_OK | HTTP_BAD_REQUEST | HTTP_NOT_FOUND | HTTP_INTERNAL_SERVER_ERROR

record http_reply =
  content_type :: string
  reply_status :: HttpStatus
  reply_body :: string

definition HEADER_JSON :: string where
  "HEADER_JSON = ''application/json''"

text \<open>
  \<^verbatim>\<open>HttpChannel::send_reply(req, status, body)\<close>, after the content type header was added
  to the request.
\<close>

definition send_reply :: "HttpStatus \<Rightarrow> string \<Rightarrow> http_reply" where
  "send_reply st body = \<lparr>content_type = HEADER_JSON, reply_status = st, reply_body = body\<rparr>"

text \<open>
  \<^verbatim>\<open>CompactionAction::handle\<close>. \<^verbatim>\<open>Status::to_json\<close> is not among the sources and is a
  parameter.
\<close>

definition handle ::
  "(status \<Rightarrow> string) \<Rightarrow> CompactionActionType \<Rightarrow> run_env \<Rightarrow> http_request \<Rightarrow> http_reply" where
  "handle to_json ctype env req =
     (if ctype = SHOW_INFO then
        (case handle_show_compaction (env_engine env) req of
           (st, json_result, evs) \<Rightarrow>
             if \<not> ok st then send_reply HTTP_OK (to_json st)
             else send_reply HTTP_OK json_result)
      else if ctype = RUN_COMPACTION then
        (case handle_run_compaction env req of
           (st, json_result, evs) \<Rightarrow>
             if \<not> ok st then send_reply HTTP_OK (to_json st)
             else send_reply HTTP_OK json_result)
      else
        (case handle_run_status_compaction (env_engine env) req of
           (st, json_result, evs) \<Rightarrow>
             if \<not> ok st then send_reply HTTP_OK (to_json st)
             else send_reply HTTP_OK json_result))"

subsection \<open>The handler behind each action type\<close>

text \<open>The handler that \<open>handle\<close> calls for an action type, to state what \<open>handle\<close> replies.\<close>

definition handler_of ::
  "CompactionActionType \<Rightarrow> run_env \<Rightarrow> http_request \<Rightarrow> status \<times> string \<times> event list" where
  "handler_of ctype env req =
     (case ctype of
        SHOW_INFO \<Rightarrow> handle_show_compaction (env_engine env) req
      | RUN_COMPACTION \<Rightarrow> handle_run_compaction env req
      | RUN_COMPACTION_STATUS \<Rightarrow> handle_run_status_compaction (env_engine env) req)"

subsection \<open>Concrete inputs\<close>

text \<open>
  A small engine for evaluating the handlers: table 42 has the tablets 7, 8 and 9.
  Tablet 7 is under cumulative compaction, tablet 8 refuses submissions, tablet 9 may
  fetch from a peer.
\<close>

definition tablet_7 :: tablet where
  "tablet_7 =
     \<lparr>get_tablet_id = 7, get_table_id = 42, should_fetch_from_peer = False,
      is_full_compaction_running = False, get_cumulative_compaction_lock = Held,
      get_base_compaction_lock = Free, compaction_policy = ''size_based'',
      get_cumulative_compaction_policy = None, get_compaction_status = ''{}''\<rparr>"

definition tablet_8 :: tablet where
  "tablet_8 = tablet_7\<lparr>get_tablet_id := 8, get_cumulative_compaction_lock := Free\<rparr>"

definition tablet_9 :: tablet where
  "tablet_9 = tablet_8\<lparr>get_tablet_id := 9, should_fetch_from_peer := True\<rparr>"

definition engine_42 :: storage_engine where
  "engine_42 =
     \<lparr>tablets = [tablet_7, tablet_8, tablet_9], get_compaction_status_json = ''{}'',
      submit_compaction_task =
        (\<lambda>tablet ctype force.
           if get_tablet_id tablet = 8 then InternalError ''submit failed'' else Status_OK)\<rparr>"

definition request :: "(string \<times> string) list \<Rightarrow> http_request" where
  "request ps = \<lparr>params = ps\<rparr>"

subsection \<open>A sequence of manual compactions\<close>

text \<open>
  The callback run again and again on the same tablet, each run with its own compaction
  results, type and remote flag.
\<close>

fun run_callbacks :: "(compaction_ops \<times> string \<times> bool) list \<Rightarrow> callback_state \<Rightarrow> callback_state" where
  "run_callbacks [] s = s"
| "run_callbacks ((ops, compaction_type, fetch_from_remote) # rest) s =
     run_callbacks rest (snd (execute_compaction_callback ops s compaction_type fetch_from_remote))"

text \<open>Compaction results for evaluating the callback.\<close>

definition ops_execute_fails :: compaction_ops where
  "ops_execute_fails =
     \<lparr>prepare_compact = (\<lambda>c t. Status_OK),
      execute_compact = (\<lambda>c t. InternalError ''merge failed'')\<rparr>"

definition ops_prepare_fails :: compaction_ops where
  "ops_prepare_fails =
     \<lparr>prepare_compact = (\<lambda>c t. Status BE_NO_SUITABLE_VERSION ''no suitable version''),
      execute_compact = (\<lambda>c t. Status_OK)\<rparr>"

definition callback_start :: callback_state where
  "callback_start =
     \<lparr>cb_tablet = tablet_8,
      metrics = \<lparr>base_compaction_request_failed = 0, cumulative_compaction_request_failed = 0\<rparr>,
      policies_created = 0, calls = []\<rparr>"

definition callback_after_failed_prepare :: callback_state where
  "callback_after_failed_prepare =
     callback_start\<lparr>policies_created := 1,
       cb_tablet := tablet_8\<lparr>get_cumulative_compaction_policy :=
         Some \<lparr>instance_id = 0, policy_name = ''size_based''\<rparr>\<rparr>,
       calls := [PrepareCompact BaseCompaction]\<rparr>"

text \<open>
  Two environments over \<open>engine_42\<close> whose compactions fail in the merge: in the first the
  task is done within the wait, in the second the wait times out.
\<close>

definition env_ready :: run_env where
  "env_ready =
     \<lparr>env_engine = engine_42, env_ops = ops_execute_fails,
      debug_point_submit_cumu_task = False, wait_for = ready,
      metrics_now = \<lparr>base_compaction_request_failed = 0,
                     cumulative_compaction_request_failed = 0\<rparr>,
      policies_now = 0\<rparr>"

definition env_timeout :: run_env where
  "env_timeout = env_ready\<lparr>wait_for := timeout\<rparr>"

section \<open>Properties\<close>

subsection \<open>Evaluation rules\<close>

lemmas stoull_defs = stoull_def strip_sign_def isspace_def isdigit_def digits_value_def

lemmas key_defs =
  TABLET_ID_KEY_def TABLE_ID_KEY_def PARAM_COMPACTION_TYPE_def PARAM_COMPACTION_BASE_def
  PARAM_COMPACTION_CUMULATIVE_def PARAM_COMPACTION_FULL_def PARAM_COMPACTION_REMOTE_def

lemmas status_defs = ok_def is_code_def Status_OK_def InternalError_def NotSupported_def NotFound_def

lemmas fixture_defs = tablet_7_def tablet_8_def tablet_9_def engine_42_def request_def

subsection \<open>Run status\<close>

lemma json_template_distinct:
  "distinct
     [json_template True ''compaction task for this tablet is running'' tablet_id ''full'',
      json_template True ''compaction task for this tablet is running'' tablet_id ''cumulative'',
      json_template True ''compaction task for this tablet is running'' tablet_id ''base'',
      json_template False ''compaction task for this tablet is not running'' tablet_id []]"
  by (simp add: json_template_def bool_string_def json_indent_def)

text \<open>
  C1. A run-status query whose \<^verbatim>\<open>tablet_id\<close> parses to a non-zero id of an existing tablet
  returns OK with exactly one reply, chosen by the fixed priority: kind \<^verbatim>\<open>full\<close> when the
  tablet's full-compaction flag is set; otherwise kind \<^verbatim>\<open>cumulative\<close> when the try-lock
  of the cumulative lock fails; otherwise kind \<^verbatim>\<open>base\<close> when the try-lock of the base
  lock fails; otherwise not running with the empty kind. The four replies differ from
  each other, so the reply tells which outcome was reported.
\<close>

theorem run_status_priority:
  assumes "check_param_id req 0 TABLET_ID_KEY = (st, tablet_id)"
    and "ok st" and "tablet_id \<noteq> 0"
    and "get_tablet engine tablet_id = Some tablet"
  shows "fst (handle_run_status_compaction engine req) = Status_OK
    \<and> fst (snd (handle_run_status_compaction engine req)) =
        (if is_full_compaction_running tablet then
           json_template True ''compaction task for this tablet is running'' tablet_id ''full''
         else if \<not> owns_lock (get_cumulative_compaction_lock tablet) then
           json_template True ''compaction task for this tablet is running'' tablet_id ''cumulative''
         else if \<not> owns_lock (get_base_compaction_lock tablet) then
           json_template True ''compaction task for this tablet is running'' tablet_id ''base''
         else
           json_template False ''compaction task for this tablet is not running'' tablet_id [])
    \<and> distinct
        [json_template True ''compaction task for this tablet is running'' tablet_id ''full'',
         json_template True ''compaction task for this tablet is running'' tablet_id ''cumulative'',
         json_template True ''compaction task for this tablet is running'' tablet_id ''base'',
         json_template False ''compaction task for this tablet is not running'' tablet_id []]"
  using assms json_template_distinct [of tablet_id]
  by (simp add: handle_run_status_compaction_def)

theorem run_status_priority_witness:
  "handle_run_status_compaction engine_42 (request [(''tablet_id'', ''7'')]) =
     (Status_OK,
      json_template True ''compaction task for this tablet is running'' 7 ''cumulative'',
      [GetTablet 7, TryLock cumulative_compaction_lock 7])
   \<and> fst (snd (handle_run_status_compaction engine_42 (request [(''tablet_id'', ''7'')]))) =
       json_template True ''compaction task for this tablet is running'' 7 ''cumulative''"
proof -
  have c: "check_param_id (request [(''tablet_id'', ''7'')]) 0 TABLET_ID_KEY = (Status_OK, 7)"
    by (simp add: check_param_id_def param_def key_defs stoull_defs fixture_defs)
  have g: "get_tablet engine_42 7 = Some tablet_7"
    by (simp add: get_tablet_def fixture_defs)
  have o: "ok Status_OK"
    by (simp add: status_defs)
  have "fst (snd (handle_run_status_compaction engine_42 (request [(''tablet_id'', ''7'')]))) =
       json_template True ''compaction task for this tablet is running'' 7 ''cumulative''"
    using run_status_priority [OF c o _ g] by (simp add: tablet_7_def owns_lock_def)
  moreover have "handle_run_status_compaction engine_42 (request [(''tablet_id'', ''7'')]) =
     (Status_OK,
      json_template True ''compaction task for this tablet is running'' 7 ''cumulative'',
      [GetTablet 7, TryLock cumulative_compaction_lock 7])"
    using c g o by (simp add: handle_run_status_compaction_def tablet_7_def owns_lock_def)
  ultimately show ?thesis by simp
qed

subsection \<open>The reply\<close>

text \<open>
  C10. Whatever the action type and whatever the handler returns, the reply has HTTP
  status OK; its body is the handler's JSON result when the handler's Status is ok, and
  the JSON made from that Status otherwise.
\<close>

theorem handle_reply_always_ok:
  "reply_status (handle to_json ctype env req) = HTTP_OK
   \<and> reply_body (handle to_json ctype env req) =
       (case handler_of ctype env req of
          (st, json_result, evs) \<Rightarrow> if ok st then json_result else to_json st)"
  by (cases ctype) (simp_all add: handle_def handler_of_def send_reply_def split: prod.splits)

subsection \<open>The compaction callback\<close>

lemmas callback_defs =
  execute_compaction_callback_def do_compact_def bind_policy_def record_calls_def
  increment_base_failed_def increment_cumulative_failed_def set_cumulative_compaction_policy_def
  create_cumulative_compaction_policy_def

lemma cb_tablet_record_calls: "cb_tablet (record_calls cs s) = cb_tablet s"
  by (simp add: record_calls_def)
lemma cb_tablet_increment_base: "cb_tablet (increment_base_failed s) = cb_tablet s"
  by (simp add: increment_base_failed_def)
lemma cb_tablet_increment_cumulative: "cb_tablet (increment_cumulative_failed s) = cb_tablet s"
  by (simp add: increment_cumulative_failed_def)
lemma metrics_record_calls: "metrics (record_calls cs s) = metrics s"
  by (simp add: record_calls_def)
lemma metrics_bind_policy: "metrics (bind_policy s) = metrics s"
  by (simp add: bind_policy_def Let_def)
lemma metrics_increment_base:
  "metrics (increment_base_failed s) =
     (metrics s)\<lparr>base_compaction_request_failed := base_compaction_request_failed (metrics s) + 1\<rparr>"
  by (simp add: increment_base_failed_def)
lemma metrics_increment_cumulative:
  "metrics (increment_cumulative_failed s) =
     (metrics s)\<lparr>cumulative_compaction_request_failed :=
        cumulative_compaction_request_failed (metrics s) + 1\<rparr>"
  by (simp add: increment_cumulative_failed_def)
lemmas state_simps = cb_tablet_record_calls cb_tablet_increment_base cb_tablet_increment_cumulative
  metrics_record_calls metrics_bind_policy metrics_increment_base metrics_increment_cumulative

lemma callback_tablet:
  "cb_tablet (snd (execute_compaction_callback ops s compaction_type fetch_from_remote)) =
     cb_tablet (bind_policy s)"
  unfolding execute_compaction_callback_def Let_def
  by (simp add: state_simps split: prod.splits)

lemma bind_policy_policy:
  "get_cumulative_compaction_policy (cb_tablet (bind_policy s)) =
     Some (case get_cumulative_compaction_policy (cb_tablet s) of
             None \<Rightarrow> create_cumulative_compaction_policy (policies_created s)
                       (compaction_policy (cb_tablet s))
           | Some p \<Rightarrow> p)"
  by (simp add: bind_policy_def set_cumulative_compaction_policy_def Let_def split: option.splits)

lemma run_callbacks_keeps_policy:
  "get_cumulative_compaction_policy (cb_tablet s) = Some p \<Longrightarrow>
   get_cumulative_compaction_policy (cb_tablet (run_callbacks runs s)) = Some p"
proof (induction runs arbitrary: s)
  case Nil
  then show ?case by simp
next
  case (Cons run runs)
  obtain ops compaction_type fetch_from_remote where run: "run = (ops, compaction_type, fetch_from_remote)"
    by (cases run) auto
  have "get_cumulative_compaction_policy
          (cb_tablet (snd (execute_compaction_callback ops s compaction_type fetch_from_remote))) = Some p"
    using Cons.prems by (simp add: callback_tablet bind_policy_policy)
  then show ?case
    using Cons.IH run by simp
qed

text \<open>
  C2, as amended. After the callback the failure counters are the ones before it, but for
  two cases: a base compaction that failed with a code other than
  \<^verbatim>\<open>BE_NO_SUITABLE_VERSION\<close> adds one to the base counter, and a local cumulative
  compaction that failed with a code other than \<^verbatim>\<open>CUMULATIVE_NO_SUITABLE_VERSION\<close> adds
  one to the cumulative counter. A remote-fetch cumulative compaction and a full
  compaction change no counter, whatever their result.
\<close>

theorem failure_counters:
  "metrics (snd (execute_compaction_callback ops s compaction_type fetch_from_remote)) =
     (let res = fst (execute_compaction_callback ops s compaction_type fetch_from_remote)
      in if compaction_type = PARAM_COMPACTION_BASE \<and> \<not> ok res
            \<and> code res \<noteq> BE_NO_SUITABLE_VERSION then
           (metrics s)\<lparr>base_compaction_request_failed :=
              base_compaction_request_failed (metrics s) + 1\<rparr>
         else if compaction_type = PARAM_COMPACTION_CUMULATIVE \<and> \<not> fetch_from_remote
            \<and> \<not> ok res \<and> code res \<noteq> CUMULATIVE_NO_SUITABLE_VERSION then
           (metrics s)\<lparr>cumulative_compaction_request_failed :=
              cumulative_compaction_request_failed (metrics s) + 1\<rparr>
         else metrics s)"
  unfolding execute_compaction_callback_def Let_def
  by (simp add: state_simps is_code_def key_defs status_defs split: prod.splits)

text \<open>
  C2 as stated fails: a full compaction whose merge fails with an internal error leaves
  both failure counters as they were.
\<close>

theorem full_failure_not_counted:
  "code (fst (execute_compaction_callback ops_execute_fails callback_start ''full'' False))
     = INTERNAL_ERROR
   \<and> \<not> ok (fst (execute_compaction_callback ops_execute_fails callback_start ''full'' False))
   \<and> metrics (snd (execute_compaction_callback ops_execute_fails callback_start ''full'' False))
     = \<lparr>base_compaction_request_failed = 0, cumulative_compaction_request_failed = 0\<rparr>"
  by (simp add: callback_defs key_defs status_defs ops_execute_fails_def callback_start_def Let_def)

text \<open>
  C6. Every run of the callback does one of three things: for a type that is none of
  base, cumulative and full it calls nothing and returns OK; or \<^verbatim>\<open>prepare_compact\<close>
  returned ok, \<^verbatim>\<open>execute_compact\<close> was called right after it on the same compaction, and
  its status is the result; or \<^verbatim>\<open>prepare_compact\<close> failed, it is the only call made, and
  its failure is the result.
\<close>

theorem execute_only_after_prepare:
  assumes "execute_compaction_callback ops s compaction_type fetch_from_remote = (res, s')"
  shows "(compaction_type \<noteq> PARAM_COMPACTION_BASE \<and> compaction_type \<noteq> PARAM_COMPACTION_CUMULATIVE
           \<and> compaction_type \<noteq> PARAM_COMPACTION_FULL \<and> calls s' = calls s \<and> res = Status_OK)
       \<or> (\<exists>c. ok (prepare_compact ops c (cb_tablet s'))
              \<and> calls s' = calls s @ [PrepareCompact c, ExecuteCompact c]
              \<and> res = execute_compact ops c (cb_tablet s'))
       \<or> (\<exists>c. \<not> ok (prepare_compact ops c (cb_tablet s'))
              \<and> calls s' = calls s @ [PrepareCompact c]
              \<and> res = prepare_compact ops c (cb_tablet s'))"
  using assms
  by (auto simp add: execute_compaction_callback_def do_compact_def record_calls_def
      increment_base_failed_def increment_cumulative_failed_def bind_policy_def Let_def
      split: if_splits)

theorem execute_only_after_prepare_witness:
  "execute_compaction_callback ops_prepare_fails callback_start ''base'' False =
     (Status BE_NO_SUITABLE_VERSION ''no suitable version'', callback_after_failed_prepare)
   \<and> ((''base'' \<noteq> PARAM_COMPACTION_BASE \<and> ''base'' \<noteq> PARAM_COMPACTION_CUMULATIVE
           \<and> ''base'' \<noteq> PARAM_COMPACTION_FULL
           \<and> calls callback_after_failed_prepare = calls callback_start
           \<and> Status BE_NO_SUITABLE_VERSION ''no suitable version'' = Status_OK)
       \<or> (\<exists>c. ok (prepare_compact ops_prepare_fails c (cb_tablet callback_after_failed_prepare))
              \<and> calls callback_after_failed_prepare
                  = calls callback_start @ [PrepareCompact c, ExecuteCompact c]
              \<and> Status BE_NO_SUITABLE_VERSION ''no suitable version''
                  = execute_compact ops_prepare_fails c (cb_tablet callback_after_failed_prepare))
       \<or> (\<exists>c. \<not> ok (prepare_compact ops_prepare_fails c (cb_tablet callback_after_failed_prepare))
              \<and> calls callback_after_failed_prepare = calls callback_start @ [PrepareCompact c]
              \<and> Status BE_NO_SUITABLE_VERSION ''no suitable version''
                  = prepare_compact ops_prepare_fails c (cb_tablet callback_after_failed_prepare)))"
proof -
  have e: "execute_compaction_callback ops_prepare_fails callback_start ''base'' False =
     (Status BE_NO_SUITABLE_VERSION ''no suitable version'', callback_after_failed_prepare)"
    by (simp add: callback_defs key_defs status_defs ops_prepare_fails_def callback_start_def
        callback_after_failed_prepare_def fixture_defs Let_def)
  show ?thesis
    by (rule conjI [OF e execute_only_after_prepare [OF e]])
qed

text \<open>
  C8. After any number of manual compactions on a tablet, one at least, the tablet's
  bound policy is the one it had before the first of them; a tablet that had none is
  bound to the policy object the first callback made from the tablet's persisted
  \<^verbatim>\<open>compaction_policy\<close>, and later callbacks leave that object in place.
\<close>

theorem policy_bound_once:
  "get_cumulative_compaction_policy (cb_tablet (run_callbacks (run # runs) s)) =
     Some (case get_cumulative_compaction_policy (cb_tablet s) of
             None \<Rightarrow> create_cumulative_compaction_policy (policies_created s)
                       (compaction_policy (cb_tablet s))
           | Some p \<Rightarrow> p)"
proof -
  obtain ops compaction_type fetch_from_remote where run: "run = (ops, compaction_type, fetch_from_remote)"
    by (cases run) auto
  have "get_cumulative_compaction_policy
          (cb_tablet (snd (execute_compaction_callback ops s compaction_type fetch_from_remote))) =
        Some (case get_cumulative_compaction_policy (cb_tablet s) of
                None \<Rightarrow> create_cumulative_compaction_policy (policies_created s)
                          (compaction_policy (cb_tablet s))
              | Some p \<Rightarrow> p)"
    by (simp add: callback_tablet bind_policy_policy)
  then show ?thesis
    using run by (simp add: run_callbacks_keeps_policy)
qed

subsection \<open>Rejected ids\<close>

lemma stoull_empty: "stoull [] = Inl invalid_argument"
  by (simp add: stoull_def strip_sign_def)

lemma check_param_both_set:
  "param req TABLET_ID_KEY \<noteq> [] \<Longrightarrow> param req TABLE_ID_KEY \<noteq> [] \<Longrightarrow>
   check_param req a b =
     (InternalError ''tablet id and table id can not be set at the same time!'', a, b)"
  by (simp add: check_param_def Let_def)

lemma check_param_neither:
  "param req TABLET_ID_KEY = [] \<Longrightarrow> param req TABLE_ID_KEY = [] \<Longrightarrow>
   check_param req a b =
     (InternalError ''tablet id and table id can not be empty at the same time!'', a, b)"
  by (simp add: check_param_def Let_def)

lemma check_param_tablet:
  "param req TABLET_ID_KEY \<noteq> [] \<Longrightarrow> param req TABLE_ID_KEY = [] \<Longrightarrow>
   check_param req a b =
     (case stoull (param req TABLET_ID_KEY) of
        Inl e \<Rightarrow> (InternalError (''convert tablet_id failed, '' @ what e), a, b)
      | Inr v \<Rightarrow> (Status_OK, v, b))"
  by (simp add: check_param_def Let_def)

lemma check_param_table:
  "param req TABLET_ID_KEY = [] \<Longrightarrow> param req TABLE_ID_KEY \<noteq> [] \<Longrightarrow>
   check_param req a b =
     (case stoull (param req TABLE_ID_KEY) of
        Inl e \<Rightarrow> (InternalError (''convert table_id failed, '' @ what e), a, b)
      | Inr v \<Rightarrow> (Status_OK, a, v))"
  by (simp add: check_param_def Let_def)

lemma check_param_code:
  "code (fst (check_param req a b)) = OK \<or> code (fst (check_param req a b)) = INTERNAL_ERROR"
  by (simp add: check_param_def Let_def status_defs split: sum.splits)

lemma check_param_unparseable:
  assumes "(param req TABLET_ID_KEY \<noteq> [] \<and> stoull (param req TABLET_ID_KEY) = Inl e)
         \<or> (param req TABLE_ID_KEY \<noteq> [] \<and> stoull (param req TABLE_ID_KEY) = Inl e)"
  shows "code (fst (check_param req a b)) = INTERNAL_ERROR"
  using assms by (auto simp add: check_param_def Let_def status_defs split: sum.splits)

lemma check_param_id_unparseable:
  "param req name \<noteq> [] \<Longrightarrow> stoull (param req name) = Inl e \<Longrightarrow>
   code (fst (check_param_id req c name)) = INTERNAL_ERROR"
  by (simp add: check_param_id_def Let_def status_defs)

lemma run_rejected_by_check:
  "\<not> ok (fst (check_param req 0 0)) \<Longrightarrow>
   handle_run_compaction env req = (fst (check_param req 0 0), [], [])"
  by (cases "check_param req 0 0") (simp add: handle_run_compaction_def)

text \<open>
  C9. A \<^verbatim>\<open>tablet_id\<close> or \<^verbatim>\<open>table_id\<close> parameter that is not empty and on which
  \<^verbatim>\<open>std::stoull\<close> throws makes \<^verbatim>\<open>_check_param\<close> return an internal error, and the run
  handler return it with no tablet looked up and no task submitted. The one-parameter
  \<^verbatim>\<open>_check_param\<close> does the same for the parameter it is given, and so the show and
  run-status handlers reject such a \<^verbatim>\<open>tablet_id\<close> before any lookup.
\<close>

theorem unparseable_id_rejected:
  "((param req TABLET_ID_KEY \<noteq> [] \<and> stoull (param req TABLET_ID_KEY) = Inl e)
      \<or> (param req TABLE_ID_KEY \<noteq> [] \<and> stoull (param req TABLE_ID_KEY) = Inl e)
     \<longrightarrow> code (fst (check_param req a b)) = INTERNAL_ERROR
       \<and> code (fst (handle_run_compaction env req)) = INTERNAL_ERROR
       \<and> snd (handle_run_compaction env req) = ([], []))
   \<and> (param req name \<noteq> [] \<and> stoull (param req name) = Inl e
     \<longrightarrow> code (fst (check_param_id req c name)) = INTERNAL_ERROR)
   \<and> (param req TABLET_ID_KEY \<noteq> [] \<and> stoull (param req TABLET_ID_KEY) = Inl e
     \<longrightarrow> code (fst (handle_show_compaction engine req)) = INTERNAL_ERROR
       \<and> snd (handle_show_compaction engine req) = ([], [])
       \<and> code (fst (handle_run_status_compaction engine req)) = INTERNAL_ERROR
       \<and> snd (handle_run_status_compaction engine req) = ([], []))"
proof (intro conjI impI)
  assume h: "(param req TABLET_ID_KEY \<noteq> [] \<and> stoull (param req TABLET_ID_KEY) = Inl e)
      \<or> (param req TABLE_ID_KEY \<noteq> [] \<and> stoull (param req TABLE_ID_KEY) = Inl e)"
  show "code (fst (check_param req a b)) = INTERNAL_ERROR"
    using h by (rule check_param_unparseable)
  have c: "code (fst (check_param req 0 0)) = INTERNAL_ERROR"
    using h by (rule check_param_unparseable)
  then have r: "handle_run_compaction env req = (fst (check_param req 0 0), [], [])"
    by (simp add: run_rejected_by_check ok_def)
  show "code (fst (handle_run_compaction env req)) = INTERNAL_ERROR"
    using c r by simp
  show "snd (handle_run_compaction env req) = ([], [])"
    using r by simp
next
  assume "param req name \<noteq> [] \<and> stoull (param req name) = Inl e"
  then show "code (fst (check_param_id req c name)) = INTERNAL_ERROR"
    by (simp add: check_param_id_unparseable)
next
  assume h: "param req TABLET_ID_KEY \<noteq> [] \<and> stoull (param req TABLET_ID_KEY) = Inl e"
  then have c: "check_param_id req 0 TABLET_ID_KEY =
      (InternalError (''convert '' @ TABLET_ID_KEY @ '' failed, '' @ what e), 0)"
    by (simp add: check_param_id_def Let_def)
  show "code (fst (handle_show_compaction engine req)) = INTERNAL_ERROR"
    using c by (simp add: handle_show_compaction_def status_defs)
  show "snd (handle_show_compaction engine req) = ([], [])"
    using c by (simp add: handle_show_compaction_def status_defs)
  show "code (fst (handle_run_status_compaction engine req)) = INTERNAL_ERROR"
    using c by (simp add: handle_run_status_compaction_def status_defs)
  show "snd (handle_run_status_compaction engine req) = ([], [])"
    using c by (simp add: handle_run_status_compaction_def status_defs)
qed

theorem unparseable_id_rejected_witness:
  "stoull ''abc'' = Inl invalid_argument
   \<and> code (fst (check_param (request [(''table_id'', ''abc'')]) 0 0)) = INTERNAL_ERROR
   \<and> handle_run_compaction env_ready (request [(''table_id'', ''abc'')]) =
       (InternalError ''convert table_id failed, stoull'', [], [])
   \<and> code (fst (check_param_id (request [(''tablet_id'', ''abc'')]) 0 ''tablet_id'')) = INTERNAL_ERROR
   \<and> snd (handle_show_compaction engine_42 (request [(''tablet_id'', ''abc'')])) = ([], [])
   \<and> snd (handle_run_status_compaction engine_42 (request [(''tablet_id'', ''abc'')])) = ([], [])"
proof -
  have s: "stoull ''abc'' = Inl invalid_argument"
    by (simp add: stoull_defs)
  have p1: "param (request [(''table_id'', ''abc'')]) TABLE_ID_KEY = ''abc''"
    and p2: "param (request [(''tablet_id'', ''abc'')]) TABLET_ID_KEY = ''abc''"
    and p3: "param (request [(''tablet_id'', ''abc'')]) ''tablet_id'' = ''abc''"
    by (simp_all add: param_def request_def key_defs)
  have r: "handle_run_compaction env_ready (request [(''table_id'', ''abc'')]) =
       (InternalError ''convert table_id failed, stoull'', [], [])"
    by (simp add: handle_run_compaction_def check_param_def param_def request_def key_defs s
        what_def status_defs)
  show ?thesis
    using s r p1 p2 p3
      unparseable_id_rejected [of "request [(''table_id'', ''abc'')]" invalid_argument 0 0
        env_ready "[]" 0 engine_42]
      unparseable_id_rejected [of "request [(''tablet_id'', ''abc'')]" invalid_argument 0 0
        env_ready "''tablet_id''" 0 engine_42]
    by simp
qed

subsection \<open>Validation in the run handler\<close>

lemma stoull_Inr_nonempty: "stoull s = Inr v \<Longrightarrow> s \<noteq> []"
  using stoull_empty by auto

lemma check_param_single_tablet:
  "param req TABLE_ID_KEY = [] \<Longrightarrow> stoull (param req TABLET_ID_KEY) = Inr tablet_id \<Longrightarrow>
   check_param req 0 0 = (Status_OK, tablet_id, 0)"
  using stoull_Inr_nonempty [of "param req TABLET_ID_KEY" tablet_id]
  by (simp add: check_param_tablet)

lemma check_param_single_table:
  "param req TABLET_ID_KEY = [] \<Longrightarrow> stoull (param req TABLE_ID_KEY) = Inr table_id \<Longrightarrow>
   check_param req 0 0 = (Status_OK, 0, table_id)"
  using stoull_Inr_nonempty [of "param req TABLE_ID_KEY" table_id]
  by (simp add: check_param_table)

text \<open>
  C4. A run request with both \<^verbatim>\<open>tablet_id\<close> and \<^verbatim>\<open>table_id\<close> is rejected with an internal
  error and so is a request with neither, in both cases with nothing looked up or
  submitted. A request that names a tablet by \<^verbatim>\<open>tablet_id\<close> with \<^verbatim>\<open>remote=true\<close>, where the
  tablet exists and should not fetch from a peer, is rejected as not supported; at most
  the tablet was looked up: no task was submitted, no thread started, no lock touched.
\<close>

theorem trigger_validation:
  "(param req TABLET_ID_KEY \<noteq> [] \<and> param req TABLE_ID_KEY \<noteq> []
     \<longrightarrow> code (fst (handle_run_compaction env req)) = INTERNAL_ERROR
       \<and> snd (handle_run_compaction env req) = ([], []))
   \<and> (param req TABLET_ID_KEY = [] \<and> param req TABLE_ID_KEY = []
     \<longrightarrow> code (fst (handle_run_compaction env req)) = INTERNAL_ERROR
       \<and> snd (handle_run_compaction env req) = ([], []))
   \<and> (param req TABLE_ID_KEY = [] \<and> stoull (param req TABLET_ID_KEY) = Inr tablet_id
       \<and> param req PARAM_COMPACTION_REMOTE = ''true''
       \<and> get_tablet (env_engine env) tablet_id = Some tablet
       \<and> \<not> should_fetch_from_peer tablet
     \<longrightarrow> code (fst (handle_run_compaction env req)) = NOT_SUPPORTED
       \<and> (snd (handle_run_compaction env req) = ([], [])
          \<or> snd (handle_run_compaction env req) = ([], [GetTablet tablet_id])))"
proof (intro conjI impI)
  assume h: "param req TABLET_ID_KEY \<noteq> [] \<and> param req TABLE_ID_KEY \<noteq> []"
  then have c: "check_param req 0 0 =
      (InternalError ''tablet id and table id can not be set at the same time!'', 0, 0)"
    by (simp add: check_param_both_set)
  then have "handle_run_compaction env req =
      (InternalError ''tablet id and table id can not be set at the same time!'', [], [])"
    using run_rejected_by_check [of req env] by (simp add: status_defs)
  then show "code (fst (handle_run_compaction env req)) = INTERNAL_ERROR"
    and "snd (handle_run_compaction env req) = ([], [])"
    by (simp_all add: status_defs)
next
  assume h: "param req TABLET_ID_KEY = [] \<and> param req TABLE_ID_KEY = []"
  then have c: "check_param req 0 0 =
      (InternalError ''tablet id and table id can not be empty at the same time!'', 0, 0)"
    by (simp add: check_param_neither)
  then have "handle_run_compaction env req =
      (InternalError ''tablet id and table id can not be empty at the same time!'', [], [])"
    using run_rejected_by_check [of req env] by (simp add: status_defs)
  then show "code (fst (handle_run_compaction env req)) = INTERNAL_ERROR"
    and "snd (handle_run_compaction env req) = ([], [])"
    by (simp_all add: status_defs)
next
  assume h: "param req TABLE_ID_KEY = [] \<and> stoull (param req TABLET_ID_KEY) = Inr tablet_id
       \<and> param req PARAM_COMPACTION_REMOTE = ''true''
       \<and> get_tablet (env_engine env) tablet_id = Some tablet
       \<and> \<not> should_fetch_from_peer tablet"
  then have c: "check_param req 0 0 = (Status_OK, tablet_id, 0)"
    by (simp add: check_param_single_tablet)
  have r: "run_compaction env tablet_id 0 (param req PARAM_COMPACTION_TYPE) True =
      (NotSupported ''tablet should do compaction locally'', [], [GetTablet tablet_id])"
    using h by (simp add: run_compaction_def)
  show "code (fst (handle_run_compaction env req)) = NOT_SUPPORTED"
    using h c r by (simp add: handle_run_compaction_def status_defs Let_def)
  show "snd (handle_run_compaction env req) = ([], [])
          \<or> snd (handle_run_compaction env req) = ([], [GetTablet tablet_id])"
    using h c r by (simp add: handle_run_compaction_def status_defs Let_def)
qed

theorem trigger_validation_witness:
  "handle_run_compaction env_ready (request [(''tablet_id'', ''7''), (''table_id'', ''42'')]) =
     (InternalError ''tablet id and table id can not be set at the same time!'', [], [])
   \<and> handle_run_compaction env_ready (request [(''compact_type'', ''base'')]) =
     (InternalError ''tablet id and table id can not be empty at the same time!'', [], [])
   \<and> stoull ''7'' = Inr 7
   \<and> get_tablet engine_42 7 = Some tablet_7
   \<and> handle_run_compaction env_ready
       (request [(''tablet_id'', ''7''), (''compact_type'', ''cumulative''), (''remote'', ''true'')]) =
     (NotSupported ''tablet should do compaction locally'', [], [GetTablet 7])
   \<and> code (fst (handle_run_compaction env_ready
       (request [(''tablet_id'', ''7''), (''compact_type'', ''cumulative''), (''remote'', ''true'')])))
     = NOT_SUPPORTED"
proof -
  have s: "stoull ''7'' = Inr 7"
    by (simp add: stoull_defs)
  have g: "get_tablet engine_42 7 = Some tablet_7"
    by (simp add: get_tablet_def fixture_defs)
  have e: "env_engine env_ready = engine_42"
    by (simp add: env_ready_def)
  have r1: "handle_run_compaction env_ready (request [(''tablet_id'', ''7''), (''table_id'', ''42'')]) =
     (InternalError ''tablet id and table id can not be set at the same time!'', [], [])"
    by (simp add: handle_run_compaction_def check_param_def param_def request_def key_defs
        status_defs)
  have r2: "handle_run_compaction env_ready (request [(''compact_type'', ''base'')]) =
     (InternalError ''tablet id and table id can not be empty at the same time!'', [], [])"
    by (simp add: handle_run_compaction_def check_param_def param_def request_def key_defs
        status_defs)
  have r3: "handle_run_compaction env_ready
       (request [(''tablet_id'', ''7''), (''compact_type'', ''cumulative''), (''remote'', ''true'')]) =
     (NotSupported ''tablet should do compaction locally'', [], [GetTablet 7])"
    using s g e
    by (simp add: handle_run_compaction_def run_compaction_def check_param_def param_def
        request_def key_defs status_defs tablet_7_def)
  have "code (fst (handle_run_compaction env_ready
       (request [(''tablet_id'', ''7''), (''compact_type'', ''cumulative''), (''remote'', ''true'')])))
     = NOT_SUPPORTED"
    using s g e
      trigger_validation [of
        "request [(''tablet_id'', ''7''), (''compact_type'', ''cumulative''), (''remote'', ''true'')]"
        env_ready 7 tablet_7]
    by (simp add: param_def request_def key_defs tablet_7_def)
  then show ?thesis
    using s g r1 r2 r3 by simp
qed

text \<open>
  C7, as amended. A run request whose \<^verbatim>\<open>compact_type\<close> is none of base, cumulative and full,
  or whose \<^verbatim>\<open>remote\<close> is none of true, false and empty, is rejected with nothing looked
  up, locked or submitted. The error is not-supported when the id parameters pass
  \<^verbatim>\<open>_check_param\<close>; when they do not, it is the internal error of that check.
\<close>

theorem unsupported_parameters_rejected:
  assumes "(param req PARAM_COMPACTION_TYPE \<noteq> PARAM_COMPACTION_BASE
            \<and> param req PARAM_COMPACTION_TYPE \<noteq> PARAM_COMPACTION_CUMULATIVE
            \<and> param req PARAM_COMPACTION_TYPE \<noteq> PARAM_COMPACTION_FULL)
         \<or> (param req PARAM_COMPACTION_REMOTE \<noteq> ''true''
            \<and> param req PARAM_COMPACTION_REMOTE \<noteq> ''false''
            \<and> param req PARAM_COMPACTION_REMOTE \<noteq> [])"
  shows "\<not> ok (fst (handle_run_compaction env req))
    \<and> snd (handle_run_compaction env req) = ([], [])
    \<and> code (fst (handle_run_compaction env req)) =
        (if ok (fst (check_param req 0 0)) then NOT_SUPPORTED else INTERNAL_ERROR)"
proof (cases "ok (fst (check_param req 0 0))")
  case True
  obtain st tablet_id table_id where c: "check_param req 0 0 = (st, tablet_id, table_id)"
    by (cases "check_param req 0 0") auto
  with True have "ok st" by simp
  then show ?thesis
    using assms c True by (auto simp add: handle_run_compaction_def status_defs Let_def)
next
  case False
  then have "handle_run_compaction env req = (fst (check_param req 0 0), [], [])"
    by (rule run_rejected_by_check)
  then show ?thesis
    using False check_param_code [of req 0 0] by (simp add: ok_def)
qed

text \<open>
  C7 as stated fails: a request with an unsupported \<^verbatim>\<open>compact_type\<close> and no id is rejected
  with an internal error, not with a not-supported error.
\<close>

theorem unsupported_type_internal_error:
  "param (request [(''compact_type'', ''xyz'')]) PARAM_COMPACTION_TYPE = ''xyz''
   \<and> handle_run_compaction env_ready (request [(''compact_type'', ''xyz'')]) =
     (InternalError ''tablet id and table id can not be empty at the same time!'', [], [])
   \<and> code (fst (handle_run_compaction env_ready (request [(''compact_type'', ''xyz'')])))
     = INTERNAL_ERROR"
  by (simp add: handle_run_compaction_def check_param_def param_def request_def key_defs
      status_defs)

theorem unsupported_parameters_rejected_witness:
  "param (request [(''tablet_id'', ''7''), (''compact_type'', ''xyz'')]) PARAM_COMPACTION_TYPE = ''xyz''
   \<and> check_param (request [(''tablet_id'', ''7''), (''compact_type'', ''xyz'')]) 0 0
     = (Status_OK, 7, 0)
   \<and> code (fst (handle_run_compaction env_ready
        (request [(''tablet_id'', ''7''), (''compact_type'', ''xyz'')]))) = NOT_SUPPORTED
   \<and> snd (handle_run_compaction env_ready
        (request [(''tablet_id'', ''7''), (''compact_type'', ''xyz'')])) = ([], [])"
proof -
  have p: "param (request [(''tablet_id'', ''7''), (''compact_type'', ''xyz'')]) PARAM_COMPACTION_TYPE
      = ''xyz''"
    by (simp add: param_def request_def key_defs)
  have c: "check_param (request [(''tablet_id'', ''7''), (''compact_type'', ''xyz'')]) 0 0
      = (Status_OK, 7, 0)"
    by (simp add: check_param_def param_def request_def key_defs stoull_defs)
  show ?thesis
    using p c
      unsupported_parameters_rejected [of
        "request [(''tablet_id'', ''7''), (''compact_type'', ''xyz'')]" env_ready]
    by (simp add: key_defs status_defs)
qed

subsection \<open>Waiting for the task\<close>

text \<open>
  C5. A run request that names an existing tablet by \<^verbatim>\<open>tablet_id\<close> and passes validation,
  with the debug point off, starts the callback on a detached thread and waits once, for
  2 seconds, on its future. When the wait returns ready, a failure of the task is the
  handler's result, and a success makes the handler report the trigger as successful.
  When the wait does not return ready, the handler reports the trigger as successful
  whatever the task returns; nothing but the lookup, the thread start and the wait is
  done, so the task is not cancelled.
\<close>

theorem bounded_wait:
  assumes "param req TABLE_ID_KEY = []"
    and "stoull (param req TABLET_ID_KEY) = Inr tablet_id"
    and "compaction_type = param req PARAM_COMPACTION_TYPE"
    and "compaction_type = PARAM_COMPACTION_BASE \<or> compaction_type = PARAM_COMPACTION_CUMULATIVE
         \<or> compaction_type = PARAM_COMPACTION_FULL"
    and "param req PARAM_COMPACTION_REMOTE = ''true'' \<or> param req PARAM_COMPACTION_REMOTE = ''false''
         \<or> param req PARAM_COMPACTION_REMOTE = []"
    and "fetch_from_remote = (param req PARAM_COMPACTION_REMOTE = ''true'')"
    and "get_tablet (env_engine env) tablet_id = Some tablet"
    and "fetch_from_remote \<longrightarrow> should_fetch_from_peer tablet"
    and "\<not> debug_point_submit_cumu_task env"
  shows "snd (snd (handle_run_compaction env req)) =
           [GetTablet tablet_id,
            ThreadDetach (get_tablet_id tablet) compaction_type fetch_from_remote,
            FutureWaitFor 2]
    \<and> fst (handle_run_compaction env req) =
        (if wait_for env = ready
            \<and> \<not> ok (task_result env tablet compaction_type fetch_from_remote)
         then task_result env tablet compaction_type fetch_from_remote
         else Status_OK)
    \<and> fst (snd (handle_run_compaction env req)) =
        (if wait_for env = ready
            \<and> \<not> ok (task_result env tablet compaction_type fetch_from_remote)
         then []
         else triggered_json ''compaction'' 0 tablet_id)"
proof -
  have c: "check_param req 0 0 = (Status_OK, tablet_id, 0)"
    using assms(1,2) by (rule check_param_single_tablet)
  have r: "run_compaction env tablet_id 0 compaction_type fetch_from_remote =
      (let olap_status = task_result env tablet compaction_type fetch_from_remote;
           evs = [GetTablet tablet_id,
                  ThreadDetach (get_tablet_id tablet) compaction_type fetch_from_remote,
                  FutureWaitFor 2]
       in if wait_for env = ready \<and> \<not> ok olap_status then (olap_status, [], evs)
          else (Status_OK, triggered_json ''compaction'' 0 tablet_id, evs))"
    using assms(7,8,9) by (auto simp add: run_compaction_def)
  have h: "handle_run_compaction env req =
      run_compaction env tablet_id 0 compaction_type fetch_from_remote"
    using c assms(3,4,5,6)
    by (auto simp add: handle_run_compaction_def status_defs Let_def)
  show ?thesis
    unfolding h r by (simp add: Let_def)
qed

theorem bounded_wait_witness:
  "task_result env_ready tablet_8 ''base'' False = InternalError ''merge failed''
   \<and> handle_run_compaction env_ready (request [(''tablet_id'', ''8''), (''compact_type'', ''base'')])
     = (InternalError ''merge failed'', [],
        [GetTablet 8, ThreadDetach 8 ''base'' False, FutureWaitFor 2])
   \<and> task_result env_timeout tablet_8 ''base'' False = InternalError ''merge failed''
   \<and> handle_run_compaction env_timeout (request [(''tablet_id'', ''8''), (''compact_type'', ''base'')])
     = (Status_OK, triggered_json ''compaction'' 0 8,
        [GetTablet 8, ThreadDetach 8 ''base'' False, FutureWaitFor 2])"
proof -
  let ?req = "request [(''tablet_id'', ''8''), (''compact_type'', ''base'')]"
  have p: "param ?req TABLE_ID_KEY = []" "param ?req TABLET_ID_KEY = ''8''"
    "param ?req PARAM_COMPACTION_TYPE = ''base''" "param ?req PARAM_COMPACTION_REMOTE = []"
    by (simp_all add: param_def request_def key_defs)
  have s: "stoull (param ?req TABLET_ID_KEY) = Inr 8"
    by (simp add: p stoull_defs)
  have g1: "get_tablet (env_engine env_ready) 8 = Some tablet_8"
    and g2: "get_tablet (env_engine env_timeout) 8 = Some tablet_8"
    by (simp_all add: get_tablet_def env_ready_def env_timeout_def fixture_defs)
  have t1: "task_result env_ready tablet_8 ''base'' False = InternalError ''merge failed''"
    and t2: "task_result env_timeout tablet_8 ''base'' False = InternalError ''merge failed''"
    by (simp_all add: task_result_def callback_defs env_ready_def env_timeout_def
        ops_execute_fails_def key_defs status_defs Let_def)
  have w1: "handle_run_compaction env_ready ?req
     = (InternalError ''merge failed'', [],
        [GetTablet 8, ThreadDetach 8 ''base'' False, FutureWaitFor 2])"
    using bounded_wait [of ?req 8 "''base''" False env_ready tablet_8] p s g1 t1
    by (cases "handle_run_compaction env_ready ?req")
      (simp add: key_defs env_ready_def fixture_defs status_defs)
  have w2: "handle_run_compaction env_timeout ?req
     = (Status_OK, triggered_json ''compaction'' 0 8,
        [GetTablet 8, ThreadDetach 8 ''base'' False, FutureWaitFor 2])"
    using bounded_wait [of ?req 8 "''base''" False env_timeout tablet_8] p s g2 t2
    by (cases "handle_run_compaction env_timeout ?req")
      (simp add: key_defs env_ready_def env_timeout_def fixture_defs status_defs)
  show ?thesis
    using t1 t2 w1 w2 by simp
qed

subsection \<open>Table-level fan-out\<close>

lemma submit_tablet_vec_stops:
  "submit_tablet_vec engine ts =
     (case find (\<lambda>t. \<not> ok (submit_compaction_task engine t FULL_COMPACTION False)) ts of
        None \<Rightarrow>
          (Status_OK,
           map (\<lambda>t. SubmitCompactionTask (get_tablet_id t) FULL_COMPACTION False) ts)
      | Some bad \<Rightarrow>
          (submit_compaction_task engine bad FULL_COMPACTION False,
           map (\<lambda>t. SubmitCompactionTask (get_tablet_id t) FULL_COMPACTION False)
             (takeWhile (\<lambda>t. ok (submit_compaction_task engine t FULL_COMPACTION False)) ts
              @ [bad])))"
  by (induction ts) (simp_all add: Let_def split: option.splits)

lemma find_failing_not_ok:
  "find (\<lambda>t. \<not> ok (f t)) ts = Some bad \<Longrightarrow> \<not> ok (f bad)"
  by (induction ts) (auto split: if_splits)

text \<open>
  C3, as amended. A run request with a \<^verbatim>\<open>table_id\<close> that parses to a non-zero id, no
  \<^verbatim>\<open>tablet_id\<close>, and supported \<^verbatim>\<open>compact_type\<close> and \<^verbatim>\<open>remote\<close> values submits a full
  compaction for the tablets of that table in their order, up to and including the first
  tablet whose submission fails. That failure is the handler's result and the tablets
  after it get no submission. When no submission fails, every matching tablet gets
  exactly one and the handler reports success.
\<close>

theorem fan_out_stops_at_first_failure:
  assumes "param req TABLET_ID_KEY = []"
    and "stoull (param req TABLE_ID_KEY) = Inr table_id" and "table_id \<noteq> 0"
    and "param req PARAM_COMPACTION_TYPE = PARAM_COMPACTION_BASE
         \<or> param req PARAM_COMPACTION_TYPE = PARAM_COMPACTION_CUMULATIVE
         \<or> param req PARAM_COMPACTION_TYPE = PARAM_COMPACTION_FULL"
    and "param req PARAM_COMPACTION_REMOTE = ''true'' \<or> param req PARAM_COMPACTION_REMOTE = ''false''
         \<or> param req PARAM_COMPACTION_REMOTE = []"
    and "ts = get_all_tablet (env_engine env) (\<lambda>tablet. get_table_id tablet = table_id)"
    and "submitted = (\<lambda>t. SubmitCompactionTask (get_tablet_id t) FULL_COMPACTION False)"
    and "accepted = (\<lambda>t. ok (submit_compaction_task (env_engine env) t FULL_COMPACTION False))"
  shows "handle_run_compaction env req =
     (case find (\<lambda>t. \<not> accepted t) ts of
        None \<Rightarrow>
          (Status_OK, triggered_json ''compaction'' table_id 0,
           GetAllTablet table_id # map submitted ts)
      | Some bad \<Rightarrow>
          (submit_compaction_task (env_engine env) bad FULL_COMPACTION False, [],
           GetAllTablet table_id # map submitted (takeWhile accepted ts @ [bad])))"
proof -
  have c: "check_param req 0 0 = (Status_OK, 0, table_id)"
    using assms(1,2) by (rule check_param_single_table)
  have r: "run_compaction env 0 table_id (param req PARAM_COMPACTION_TYPE) remote_flag =
     (case find (\<lambda>t. \<not> accepted t) ts of
        None \<Rightarrow>
          (Status_OK, triggered_json ''compaction'' table_id 0,
           GetAllTablet table_id # map submitted ts)
      | Some bad \<Rightarrow>
          (submit_compaction_task (env_engine env) bad FULL_COMPACTION False, [],
           GetAllTablet table_id # map submitted (takeWhile accepted ts @ [bad])))"
    for remote_flag
  proof (cases "find (\<lambda>t. \<not> accepted t) ts")
    case None
    then show ?thesis
      using assms(3) unfolding assms(6,7,8)
      by (simp add: run_compaction_def submit_tablet_vec_stops status_defs)
  next
    case (Some bad)
    then have "\<not> ok (submit_compaction_task (env_engine env) bad FULL_COMPACTION False)"
      unfolding assms(8) by (rule find_failing_not_ok)
    then show ?thesis
      using Some assms(3) unfolding assms(6,7,8)
      by (simp add: run_compaction_def submit_tablet_vec_stops)
  qed
  show ?thesis
    using c assms(4,5) r [of True] r [of False]
    by (auto simp add: handle_run_compaction_def status_defs Let_def)
qed

text \<open>
  C3 as stated fails: table 42 has the tablets 7, 8 and 9, the submission for tablet 8
  fails, and tablet 9 gets no submission; the failure is the handler's result.
\<close>

theorem fan_out_abandons_remaining_tablets:
  "get_all_tablet engine_42 (\<lambda>tablet. get_table_id tablet = 42) = [tablet_7, tablet_8, tablet_9]
   \<and> handle_run_compaction env_ready (request [(''table_id'', ''42''), (''compact_type'', ''full'')])
     = (InternalError ''submit failed'', [],
        [GetAllTablet 42, SubmitCompactionTask 7 FULL_COMPACTION False,
         SubmitCompactionTask 8 FULL_COMPACTION False])
   \<and> SubmitCompactionTask 9 FULL_COMPACTION False
       \<notin> set (snd (snd (handle_run_compaction env_ready
                (request [(''table_id'', ''42''), (''compact_type'', ''full'')]))))"
proof -
  have g: "get_all_tablet engine_42 (\<lambda>tablet. get_table_id tablet = 42)
      = [tablet_7, tablet_8, tablet_9]"
    by (simp add: get_all_tablet_def fixture_defs)
  have c: "check_param (request [(''table_id'', ''42''), (''compact_type'', ''full'')]) 0 0
      = (Status_OK, 0, 42)"
    by (simp add: check_param_def param_def request_def key_defs stoull_defs)
  have s: "submit_tablet_vec engine_42 [tablet_7, tablet_8, tablet_9] =
      (InternalError ''submit failed'',
       [SubmitCompactionTask 7 FULL_COMPACTION False, SubmitCompactionTask 8 FULL_COMPACTION False])"
    by (simp add: fixture_defs status_defs)
  have r: "handle_run_compaction env_ready (request [(''table_id'', ''42''), (''compact_type'', ''full'')])
     = (InternalError ''submit failed'', [],
        [GetAllTablet 42, SubmitCompactionTask 7 FULL_COMPACTION False,
         SubmitCompactionTask 8 FULL_COMPACTION False])"
    using c g s
    by (simp add: handle_run_compaction_def run_compaction_def param_def request_def key_defs
        env_ready_def status_defs)
  show ?thesis
    using g r by simp
qed

theorem fan_out_stops_at_first_failure_witness:
  "stoull ''42'' = Inr 42
   \<and> find (\<lambda>t. \<not> ok (submit_compaction_task engine_42 t FULL_COMPACTION False))
        [tablet_7, tablet_8, tablet_9] = Some tablet_8
   \<and> handle_run_compaction env_ready (request [(''table_id'', ''42''), (''compact_type'', ''full'')])
     = (InternalError ''submit failed'', [],
        [GetAllTablet 42, SubmitCompactionTask 7 FULL_COMPACTION False,
         SubmitCompactionTask 8 FULL_COMPACTION False])"
proof -
  let ?req = "request [(''table_id'', ''42''), (''compact_type'', ''full'')]"
  have p: "param ?req TABLET_ID_KEY = []" "param ?req TABLE_ID_KEY = ''42''"
    "param ?req PARAM_COMPACTION_TYPE = PARAM_COMPACTION_FULL"
    "param ?req PARAM_COMPACTION_REMOTE = []"
    by (simp_all add: param_def request_def key_defs)
  have s: "stoull ''42'' = Inr 42"
    by (simp add: stoull_defs)
  have e: "env_engine env_ready = engine_42"
    by (simp add: env_ready_def)
  have g: "get_all_tablet engine_42 (\<lambda>tablet. get_table_id tablet = 42)
      = [tablet_7, tablet_8, tablet_9]"
    by (simp add: get_all_tablet_def fixture_defs)
  have f: "find (\<lambda>t. \<not> ok (submit_compaction_task engine_42 t FULL_COMPACTION False))
        [tablet_7, tablet_8, tablet_9] = Some tablet_8"
    by (simp add: fixture_defs status_defs)
  have a: "submit_compaction_task engine_42 tablet_7 FULL_COMPACTION False = Status_OK"
    by (simp add: fixture_defs)
  have b: "submit_compaction_task engine_42 tablet_8 FULL_COMPACTION False
      = InternalError ''submit failed''"
    by (simp add: fixture_defs)
  have i: "get_tablet_id tablet_7 = 7" "get_tablet_id tablet_8 = 8"
    by (simp_all add: fixture_defs)
  have "handle_run_compaction env_ready ?req
     = (InternalError ''submit failed'', [],
        [GetAllTablet 42, SubmitCompactionTask 7 FULL_COMPACTION False,
         SubmitCompactionTask 8 FULL_COMPACTION False])"
    using fan_out_stops_at_first_failure [of ?req 42 "[tablet_7, tablet_8, tablet_9]" env_ready
        "\<lambda>t. SubmitCompactionTask (get_tablet_id t) FULL_COMPACTION False"
        "\<lambda>t. ok (submit_compaction_task (env_engine env_ready) t FULL_COMPACTION False)"]
      p s
    by (simp add: e g a b i status_defs)
  then show ?thesis
    using s f by simp
qed

end
